theory Spec2Isabelle
  imports Complex_Main
begin

section \<open>Numbers of the data frame\<close>

text \<open>
  The criteria of \<^verbatim>\<open>topsis.py\<close> are float64 values held in pandas objects. They are
  modelled as exact real numbers plus the one non-number the pipeline produces itself,
  NaN (from \<^verbatim>\<open>0/0\<close>, or read from an empty cell). This is an idealisation and
  not the arithmetic of the program: the sums, products, quotients and square roots
  here are exact where float64 rounds each result, and there is no overflow and no
  infinity. On a table whose exact scores differ from the rounded ones, the numbers and
  even the order of the scores of the program may differ from those of the model; every
  statement below about the value of a score is a statement in exact arithmetic.
  numpy and pandas do not raise on a division by zero: the quotient of a Series by zero
  is a non-finite value.
\<close>

datatype fl = Fin real | NaN

fun fl_sq :: "fl \<Rightarrow> fl" where
  "fl_sq (Fin a) = Fin (a * a)"
| "fl_sq NaN = NaN"

fun fl_add :: "fl \<Rightarrow> fl \<Rightarrow> fl" where
  "fl_add (Fin a) (Fin b) = Fin (a + b)"
| "fl_add _ _ = NaN"

fun fl_sub :: "fl \<Rightarrow> fl \<Rightarrow> fl" where
  "fl_sub (Fin a) (Fin b) = Fin (a - b)"
| "fl_sub _ _ = NaN"

fun fl_mul :: "fl \<Rightarrow> fl \<Rightarrow> fl" where
  "fl_mul (Fin a) (Fin b) = Fin (a * b)"
| "fl_mul _ _ = NaN"

text \<open>
  \<^verbatim>\<open>0/0\<close> is NaN. A nonzero number over zero would be an infinity, which the model
  does not have; the pipeline never divides a nonzero number by zero (lemmas
  \<open>col_norm_zero_cells\<close> and \<open>dist_sum_zero\<close> below), so that case of \<open>fl_div\<close> is
  never reached from \<open>scores\<close>.
\<close>

fun fl_div :: "fl \<Rightarrow> fl \<Rightarrow> fl" where
  "fl_div (Fin a) (Fin b) = (if b = 0 then NaN else Fin (a / b))"
| "fl_div _ _ = NaN"

fun fl_sqrt :: "fl \<Rightarrow> fl" where
  "fl_sqrt (Fin a) = (if a < 0 then NaN else Fin (sqrt a))"
| "fl_sqrt NaN = NaN"

text \<open>
  The reductions of pandas (\<^verbatim>\<open>sum\<close>, \<^verbatim>\<open>max\<close>, \<^verbatim>\<open>min\<close>) skip NaN by default
  (\<^verbatim>\<open>skipna=True\<close>): the sum of no number is 0, the maximum of no number is NaN.
\<close>

fun finite_vals :: "fl list \<Rightarrow> real list" where
  "finite_vals [] = []"
| "finite_vals (Fin a # xs) = a # finite_vals xs"
| "finite_vals (NaN # xs) = finite_vals xs"

definition sum_skipna :: "fl list \<Rightarrow> fl" where
  "sum_skipna xs = Fin (sum_list (finite_vals xs))"

definition max_skipna :: "fl list \<Rightarrow> fl" where
  "max_skipna xs = (case finite_vals xs of [] \<Rightarrow> NaN | v # vs \<Rightarrow> Fin (fold max vs v))"

definition min_skipna :: "fl list \<Rightarrow> fl" where
  "min_skipna xs = (case finite_vals xs of [] \<Rightarrow> NaN | v # vs \<Rightarrow> Fin (fold min vs v))"

section \<open>The data frame and the world around the function\<close>

text \<open>
  A cell of the table as \<^verbatim>\<open>pd.read_csv\<close> typed it. A data frame is the list of its
  columns in order, each a name and its cells. \<^verbatim>\<open>read_csv\<close> gives every column the
  same number of cells and renames duplicate headers, which is \<open>wf_df\<close>.
\<close>

datatype cell = CInt int | CFloat fl | CBool bool | CStr string

type_synonym dataframe = "(string \<times> cell list) list"

definition nrows :: "dataframe \<Rightarrow> nat" where
  "nrows df = (case df of [] \<Rightarrow> 0 | c # _ \<Rightarrow> length (snd c))"


definition get_col :: "string \<Rightarrow> dataframe \<Rightarrow> cell list option" where
  "get_col name df = map_of df name"

text \<open>
  \<^verbatim>\<open>df[name] = values\<close>: an existing column of that name is overwritten where it
  stands, otherwise the column is appended.
\<close>

definition set_col :: "string \<Rightarrow> cell list \<Rightarrow> dataframe \<Rightarrow> dataframe" where
  "set_col name vals df =
     (if name \<in> set (map fst df)
      then map (\<lambda>c. if fst c = name then (name, vals) else c) df
      else df @ [(name, vals)])"

text \<open>
  What the function sees at a path: \<^verbatim>\<open>os.path.exists\<close> is false, or
  \<^verbatim>\<open>pd.read_csv\<close> raises (with the exception's text), or it returns a data frame.
\<close>

datatype file_state = Missing | Unreadable string | Csv dataframe

text \<open>
  One value per \<^verbatim>\<open>print\<close> call of the source, in the order of the source:
  \<^item> \<open>FileNotFound f\<close>: "Error: File 'f' not found."
  \<^item> \<open>CouldNotRead e\<close>: "Error: Could not read CSV file. e"
  \<^item> \<open>TooFewColumns\<close>: "Error: Input file must have at least 3 columns (...)."
  \<^item> \<open>NotNumeric\<close>: "Error: All criteria columns must be numeric."
  \<^item> \<open>CountMismatch\<close>: "Error: Number of weights and impacts must match number of criteria columns."
  \<^item> \<open>WeightsNotNumeric\<close>: "Error: Weights must be numeric."
  \<^item> \<open>BadImpact\<close>: "Error: Impacts must be '+' or '-' only."
  \<^item> \<open>Completed f\<close>: "TOPSIS completed successfully! Result saved as 'f'"
  \<^item> \<open>Usage\<close>: "Usage: python topsis.py <InputDataFile> <Weights> <Impacts> <OutputResultFileName>"
\<close>

datatype message =
    FileNotFound string | CouldNotRead string | TooFewColumns | NotNumeric
  | CountMismatch | WeightsNotNumeric | BadImpact | Completed string | Usage


text \<open>
  The exceptions that escape \<^verbatim>\<open>topsis\<close>, neither being caught by the function:
  pandas refuses to convert a NaN rank to an integer ("Cannot convert non-finite values
  (NA or inf) to integer"), and \<^verbatim>\<open>df.to_csv\<close> raises an OSError when the output
  path cannot be opened for writing (a missing directory, no permission).
\<close>

datatype exn = IntCastingNaNError | OSError

datatype outcome = ReturnedNone | Raised exn

record result =
  printed :: "message list"
  written :: "(string \<times> dataframe) option"
  outcome :: outcome

definition fail :: "message \<Rightarrow> result" where
  "fail m = \<lparr>printed = [m], written = None, outcome = ReturnedNone\<rparr>"

section \<open>Strings\<close>

text \<open>\<^verbatim>\<open>s.split(",")\<close>: never empty, \<^verbatim>\<open>"".split(",")\<close> is \<^verbatim>\<open>['']\<close>.\<close>

fun split_on :: "char \<Rightarrow> string \<Rightarrow> string list" where
  "split_on sep [] = [[]]"
| "split_on sep (c # cs) =
     (if c = sep then [] # split_on sep cs
      else (case split_on sep cs of [] \<Rightarrow> [[c]] | t # ts \<Rightarrow> (c # t) # ts))"

definition split_comma :: "string \<Rightarrow> string list" where
  "split_comma s = split_on (CHR '','') s"

text \<open>
  Python's \<^verbatim>\<open>float(s)\<close> is a parameter \<open>pf\<close> of the model: \<open>pf s = None\<close> where
  \<^verbatim>\<open>float\<close> raises ValueError. \<open>int_literal\<close> is \<^verbatim>\<open>float\<close> on the strings of an
  optional sign and decimal digits, enough for the concrete runs below; on any other
  string it answers None, where Python accepts further spellings (fractions, exponents,
  surrounding blanks), none of which occurs in those runs.
\<close>

fun digits_value :: "nat \<Rightarrow> string \<Rightarrow> nat option" where
  "digits_value acc [] = Some acc"
| "digits_value acc (c # cs) =
     (let d = (of_char c :: nat)
      in if 48 \<le> d \<and> d \<le> 57 then digits_value (10 * acc + (d - 48)) cs else None)"

fun int_literal :: "string \<Rightarrow> fl option" where
  "int_literal [] = None"
| "int_literal (c # cs) =
     (if c = CHR ''-'' then (if cs = [] then None
                             else map_option (\<lambda>n. Fin (- real n)) (digits_value 0 cs))
      else if c = CHR ''+'' then (if cs = [] then None
                             else map_option (\<lambda>n. Fin (real n)) (digits_value 0 cs))
      else map_option (\<lambda>n. Fin (real n)) (digits_value 0 (c # cs)))"

section \<open>Validation (lines 8 to 42)\<close>

text \<open>
  The conversion of an int64 cell to float64: exact for a magnitude below \<open>2^53\<close>,
  and beyond that the nearest number of 53 significant bits, a tie going to the even
  one. \<open>excess_bits n\<close> is the number of low bits that do not fit.
\<close>

function excess_bits :: "nat \<Rightarrow> nat" where
  "excess_bits n = (if n < 2 ^ 53 then 0 else Suc (excess_bits (n div 2)))"
  by pat_completeness auto
termination
  by (relation "measure (\<lambda>n. n)") auto

declare excess_bits.simps [simp del]

definition round_half_even :: "nat \<Rightarrow> nat \<Rightarrow> nat" where
  "round_half_even k n =
     (if k = 0 then n
      else (let q = n div 2 ^ k; r = n mod 2 ^ k; h = 2 ^ (k - 1)
            in (if h < r \<or> (r = h \<and> odd q) then q + 1 else q) * 2 ^ k))"

definition f64_of_int :: "int \<Rightarrow> real" where
  "f64_of_int i =
     (if \<bar>i\<bar> < 2 ^ 53 then real_of_int i
      else real_of_int (sgn i * int (round_half_even (excess_bits (nat \<bar>i\<bar>)) (nat \<bar>i\<bar>))))"

text \<open>
  \<^verbatim>\<open>data.astype(float)\<close> on one cell: integers and booleans convert, a string goes
  through \<^verbatim>\<open>float\<close>; the conversion of the frame fails when one cell fails.
\<close>

fun cell_float :: "(string \<Rightarrow> fl option) \<Rightarrow> cell \<Rightarrow> fl option" where
  "cell_float pf (CInt i) = Some (Fin (f64_of_int i))"
| "cell_float pf (CFloat x) = Some x"
| "cell_float pf (CBool b) = Some (Fin (if b then 1 else 0))"
| "cell_float pf (CStr s) = pf s"

fun those_list :: "'a option list \<Rightarrow> 'a list option" where
  "those_list [] = Some []"
| "those_list (None # xs) = None"
| "those_list (Some x # xs) = map_option ((#) x) (those_list xs)"

definition astype_float :: "(string \<Rightarrow> fl option) \<Rightarrow> cell list list \<Rightarrow> fl list list option" where
  "astype_float pf cols = those_list (map (\<lambda>c. those_list (map (cell_float pf) c)) cols)"

text \<open>
  The checks in the order of the source. The result of a passed validation is the frame
  \<^verbatim>\<open>df\<close>, the criteria \<^verbatim>\<open>data\<close> (\<^verbatim>\<open>df.iloc[:, 1:]\<close> as floats, by column), the
  weights and the impacts.
\<close>

definition validate ::
  "(string \<Rightarrow> fl option) \<Rightarrow> (string \<Rightarrow> file_state) \<Rightarrow> string \<Rightarrow> string \<Rightarrow> string
     \<Rightarrow> message + (dataframe \<times> fl list list \<times> fl list \<times> string list)" where
  "validate pf fs input_file weights impacts =
     (case fs input_file of
        Missing \<Rightarrow> Inl (FileNotFound input_file)
      | Unreadable e \<Rightarrow> Inl (CouldNotRead e)
      | Csv df \<Rightarrow>
          if length df < 3 then Inl TooFewColumns
          else (case astype_float pf (map snd (tl df)) of
             None \<Rightarrow> Inl NotNumeric
           | Some data \<Rightarrow>
               let weight_list = split_comma weights;
                   impact_list = split_comma impacts
               in if length weight_list \<noteq> length data \<or> length impact_list \<noteq> length data
                  then Inl CountMismatch
                  else (case those_list (map pf weight_list) of
                     None \<Rightarrow> Inl WeightsNotNumeric
                   | Some ws \<Rightarrow>
                       if \<exists>imp \<in> set impact_list. imp \<noteq> ''+'' \<and> imp \<noteq> ''-''
                       then Inl BadImpact
                       else Inr (df, data, ws, impact_list))))"

section \<open>The scoring pipeline (lines 43 to 59)\<close>

definition col_norm :: "fl list \<Rightarrow> fl" where
  "col_norm c = fl_sqrt (sum_skipna (map fl_sq c))"

definition normalized_data :: "fl list list \<Rightarrow> fl list list" where
  "normalized_data data = map (\<lambda>c. map (\<lambda>x. fl_div x (col_norm c)) c) data"

definition weighted_data :: "fl list list \<Rightarrow> fl list \<Rightarrow> fl list list" where
  "weighted_data data ws =
     map (\<lambda>(c, w). map (\<lambda>x. fl_mul x w) c) (zip (normalized_data data) ws)"

definition ideal_best :: "fl list list \<Rightarrow> string list \<Rightarrow> fl list" where
  "ideal_best wd impact_list =
     map (\<lambda>(imp, c). if imp = ''+'' then max_skipna c else min_skipna c) (zip impact_list wd)"

definition ideal_worst :: "fl list list \<Rightarrow> string list \<Rightarrow> fl list" where
  "ideal_worst wd impact_list =
     map (\<lambda>(imp, c). if imp = ''+'' then min_skipna c else max_skipna c) (zip impact_list wd)"

text \<open>
  \<^verbatim>\<open>np.sqrt(((weighted_data - ideal) ** 2).sum(axis=1))\<close>: one distance per row \<open>i\<close> of
  the \<open>n\<close> rows, the row sum skipping NaN.
\<close>

definition dist :: "nat \<Rightarrow> fl list list \<Rightarrow> fl list \<Rightarrow> fl list" where
  "dist n wd ideal =
     map (\<lambda>i. fl_sqrt (sum_skipna (map (\<lambda>(c, b). fl_sq (fl_sub (c ! i) b)) (zip wd ideal))))
       [0..<n]"

definition scores :: "nat \<Rightarrow> fl list list \<Rightarrow> fl list \<Rightarrow> string list \<Rightarrow> fl list" where
  "scores n data ws impact_list =
     (let wd = weighted_data data ws;
          d_best = dist n wd (ideal_best wd impact_list);
          d_worst = dist n wd (ideal_worst wd impact_list)
      in map (\<lambda>(dw, db). fl_div dw (fl_add db dw)) (zip d_worst d_best))"

section \<open>Ranking and output (lines 60 to 65)\<close>

text \<open>
  \<^verbatim>\<open>Series.rank(ascending=False)\<close> with the defaults of pandas,
  \<^verbatim>\<open>method='average'\<close> and \<^verbatim>\<open>na_option='keep'\<close>: a NaN keeps NaN, a number gets
  the mean of the positions its group of equal values occupies in descending order,
  that is the count of greater numbers plus (size of the group + 1) / 2.
\<close>

definition rank_desc :: "fl list \<Rightarrow> fl list" where
  "rank_desc s =
     map (\<lambda>x. case x of
            NaN \<Rightarrow> NaN
          | Fin v \<Rightarrow> Fin (real (length (filter (\<lambda>u. v < u) (finite_vals s)))
                          + (real (length (filter (\<lambda>u. u = v) (finite_vals s))) + 1) / 2)) s"

text \<open>\<^verbatim>\<open>.astype(int)\<close>: raises on NaN, truncates towards zero otherwise.\<close>

fun trunc_int :: "fl \<Rightarrow> int option" where
  "trunc_int NaN = None"
| "trunc_int (Fin r) = Some (if 0 \<le> r then \<lfloor>r\<rfloor> else \<lceil>r\<rceil>)"

definition astype_int :: "fl list \<Rightarrow> int list option" where
  "astype_int xs = those_list (map trunc_int xs)"

text \<open>
  The world of a run is the parser \<open>pf\<close>, the files \<open>fs\<close> that can be read and the
  predicate \<open>wr\<close> of the paths that \<^verbatim>\<open>df.to_csv\<close> can write. The write comes before
  the message of success, so a failed write prints nothing.
\<close>

definition topsis ::
  "(string \<Rightarrow> fl option) \<Rightarrow> (string \<Rightarrow> file_state) \<Rightarrow> (string \<Rightarrow> bool)
     \<Rightarrow> string \<Rightarrow> string \<Rightarrow> string \<Rightarrow> string \<Rightarrow> result" where
  "topsis pf fs wr input_file weights impacts output_file =
     (case validate pf fs input_file weights impacts of
        Inl m \<Rightarrow> fail m
      | Inr (df, data, ws, impact_list) \<Rightarrow>
          let score = scores (nrows df) data ws impact_list;
              df1 = set_col ''Topsis Score'' (map CFloat score) df
          in (case astype_int (rank_desc score) of
                None \<Rightarrow> \<lparr>printed = [], written = None, outcome = Raised IntCastingNaNError\<rparr>
              | Some rk \<Rightarrow>
                  if wr output_file
                  then \<lparr>printed = [Completed output_file],
                        written = Some (output_file, set_col ''Rank'' (map CInt rk) df1),
                        outcome = ReturnedNone\<rparr>
                  else \<lparr>printed = [], written = None, outcome = Raised OSError\<rparr>))"


section \<open>The scoring steps in the words of the specification\<close>











section \<open>Concrete tables\<close>

text \<open>A file system with one readable table, and the tables of the concrete runs below.\<close>

definition fs_single :: "string \<Rightarrow> dataframe \<Rightarrow> string \<Rightarrow> file_state" where
  "fs_single path df p = (if p = path then Csv df else Missing)"


definition wr_all :: "string \<Rightarrow> bool" where
  "wr_all p = True"


text \<open>A parser that knows \<^verbatim>\<open>float("nan")\<close> besides the integer literals.\<close>

definition nan_or_int :: "string \<Rightarrow> fl option" where
  "nan_or_int s = (if s = ''nan'' then Some NaN else int_literal s)"

definition tbl_ties :: dataframe where
  "tbl_ties = [(''Name'', [CStr ''A'', CStr ''B'', CStr ''C'', CStr ''D'']),
               (''P'', [CInt 1, CInt 1, CInt 1, CInt 1]),
               (''Q'', [CInt 4, CInt 4, CInt 4, CInt 11])]"

definition tbl_rank_col :: dataframe where
  "tbl_rank_col = [(''Name'', [CStr ''A'', CStr ''B'']),
                   (''Rank'', [CInt 3, CInt 4]),
                   (''Q'', [CInt 4, CInt 3])]"


definition tbl_one_row :: dataframe where
  "tbl_one_row = [(''Name'', [CStr ''A'']), (''P'', [CInt 1]), (''Q'', [CInt 2])]"




section \<open>Auxiliary facts\<close>

text \<open>The conversion of integers: exact when small, to the nearest even beyond.\<close>

lemma f64_of_int_small: "\<bar>i\<bar> < 2 ^ 53 \<Longrightarrow> f64_of_int i = real_of_int i"
  by (simp add: f64_of_int_def)

lemma excess_bits_example: "excess_bits 9007199254740993 = 1"
  by (simp add: excess_bits.simps [of 9007199254740993] excess_bits.simps [of 4503599627370496])

lemma f64_of_int_example: "f64_of_int 9007199254740993 = 9007199254740992"
  by (simp add: f64_of_int_def excess_bits_example round_half_even_def)

lemma f64_of_int_example2: "f64_of_int 9007199254740995 = 9007199254740996"
proof -
  have "excess_bits 9007199254740995 = 1"
    by (simp add: excess_bits.simps [of 9007199254740995] excess_bits.simps [of 4503599627370497])
  then show ?thesis by (simp add: f64_of_int_def round_half_even_def)
qed

lemma those_list_Some: "those_list xs = Some ys \<longleftrightarrow> xs = map Some ys"
proof (induction xs arbitrary: ys)
  case Nil
  then show ?case by auto
next
  case (Cons x xs)
  then show ?case by (cases x) (auto simp: map_eq_Cons_conv)
qed

lemma those_list_None: "those_list xs = None \<longleftrightarrow> None \<in> set xs"
proof (induction xs)
  case Nil
  then show ?case by simp
next
  case (Cons x xs)
  then show ?case by (cases x) auto
qed

lemma those_list_length: "those_list xs = Some ys \<Longrightarrow> length ys = length xs"
  by (simp add: those_list_Some)


lemma validate_Inr_frame:
  assumes "validate pf fs f w im = Inr (df, data, ws, il)"
  shows "fs f = Csv df" "3 \<le> length df" "astype_float pf (map snd (tl df)) = Some data"
     "il = split_comma im" "length il = length data" 
     "those_list (map pf (split_comma w)) = Some ws"
     "\<forall>imp \<in> set il. imp = ''+'' \<or> imp = ''-''"
  using assms
  by (simp_all add: validate_def Let_def split: file_state.splits option.splits if_splits)



lemma fail_fields: "printed (fail m) = [m]" "written (fail m) = None" "outcome (fail m) = ReturnedNone"
  by (simp_all add: fail_def)






lemma validate_WeightsNotNumeric:
  "fs f = Csv df \<Longrightarrow> \<not> length df < 3 \<Longrightarrow> astype_float pf (map snd (tl df)) = Some data
     \<Longrightarrow> length (split_comma w) = length data \<Longrightarrow> length (split_comma im) = length data
     \<Longrightarrow> \<exists>t \<in> set (split_comma w). pf t = None
     \<Longrightarrow> validate pf fs f w im = Inl WeightsNotNumeric"
proof -
  assume a: "fs f = Csv df" "\<not> length df < 3" "astype_float pf (map snd (tl df)) = Some data"
    "length (split_comma w) = length data" "length (split_comma im) = length data"
    and "\<exists>t \<in> set (split_comma w). pf t = None"
  then have "None \<in> set (map pf (split_comma w))" by force
  then have "those_list (map pf (split_comma w)) = None" by (simp only: those_list_None)
  with a show ?thesis by (simp add: validate_def Let_def)
qed

lemma validate_BadImpact:
  "fs f = Csv df \<Longrightarrow> \<not> length df < 3 \<Longrightarrow> astype_float pf (map snd (tl df)) = Some data
     \<Longrightarrow> length (split_comma w) = length data \<Longrightarrow> length (split_comma im) = length data
     \<Longrightarrow> those_list (map pf (split_comma w)) = Some ws
     \<Longrightarrow> \<exists>imp \<in> set (split_comma im). imp \<noteq> ''+'' \<and> imp \<noteq> ''-''
     \<Longrightarrow> validate pf fs f w im = Inl BadImpact"
  by (simp add: validate_def Let_def)

lemma validate_Inr:
  "fs f = Csv df \<Longrightarrow> \<not> length df < 3 \<Longrightarrow> astype_float pf (map snd (tl df)) = Some data
     \<Longrightarrow> length (split_comma w) = length data \<Longrightarrow> length (split_comma im) = length data
     \<Longrightarrow> those_list (map pf (split_comma w)) = Some ws
     \<Longrightarrow> \<forall>imp \<in> set (split_comma im). imp = ''+'' \<or> imp = ''-''
     \<Longrightarrow> validate pf fs f w im = Inr (df, data, ws, split_comma im)"
  by (auto simp add: validate_def Let_def)

lemma topsis_Inl: "validate pf fs f w im = Inl m \<Longrightarrow> topsis pf fs wr f w im out = fail m"
  by (simp add: topsis_def)

lemma topsis_Inr:
  "validate pf fs f w im = Inr (df, data, ws, il) \<Longrightarrow>
   topsis pf fs wr f w im out =
     (case astype_int (rank_desc (scores (nrows df) data ws il)) of
        None \<Rightarrow> \<lparr>printed = [], written = None, outcome = Raised IntCastingNaNError\<rparr>
      | Some rk \<Rightarrow>
          if wr out
          then \<lparr>printed = [Completed out],
                written = Some (out, set_col ''Rank'' (map CInt rk)
                  (set_col ''Topsis Score'' (map CFloat (scores (nrows df) data ws il)) df)),
                outcome = ReturnedNone\<rparr>
          else \<lparr>printed = [], written = None, outcome = Raised OSError\<rparr>)"
  by (simp add: topsis_def Let_def)

lemma topsis_written:
  assumes "written (topsis pf fs wr f w im out) = Some (p, tbl)"
  shows "\<exists>df data ws il rk. validate pf fs f w im = Inr (df, data, ws, il)
     \<and> astype_int (rank_desc (scores (nrows df) data ws il)) = Some rk
     \<and> p = out
     \<and> tbl = set_col ''Rank'' (map CInt rk)
              (set_col ''Topsis Score'' (map CFloat (scores (nrows df) data ws il)) df)"
proof (cases "validate pf fs f w im")
  case (Inl m)
  with assms show ?thesis by (simp add: topsis_Inl fail_def)
next
  case (Inr v)
  obtain df data ws il where v: "v = (df, data, ws, il)" by (cases v) auto
  show ?thesis
  proof (cases "astype_int (rank_desc (scores (nrows df) data ws il))")
    case None
    with assms Inr v show ?thesis by (simp add: topsis_Inr)
  next
    case (Some rk)
    show ?thesis
    proof (cases "wr out")
      case True
      with Some assms Inr v show ?thesis by (simp add: topsis_Inr)
    next
      case False
      with Some assms Inr v show ?thesis by (simp add: topsis_Inr)
    qed
  qed
qed



text \<open>The strings of the concrete runs.\<close>

lemma split_11: "split_comma ''1,1'' = [''1'', ''1'']"
  by (simp add: split_comma_def)

lemma split_pm: "split_comma ''+,-'' = [''+'', ''-'']"
  by (simp add: split_comma_def)

lemma split_pp: "split_comma ''+,+'' = [''+'', ''+'']"
  by (simp add: split_comma_def)

lemma split_1m1: "split_comma ''1,-1'' = [''1'', ''-1'']"
  by (simp add: split_comma_def)

lemma int_literal_1: "int_literal ''1'' = Some (Fin 1)"
  by (simp add: Let_def)

lemma int_literal_m1: "int_literal ''-1'' = Some (Fin (- 1))"
  by (simp add: Let_def)

lemma astype_ties:
  "astype_float int_literal (map snd (tl tbl_ties))
     = Some [[Fin 1, Fin 1, Fin 1, Fin 1], [Fin 4, Fin 4, Fin 4, Fin 11]]"
  by (simp add: tbl_ties_def astype_float_def f64_of_int_def)

text \<open>Columns of the frame and lengths.\<close>

lemma length_set_col:
  "length (set_col name vals df) = (if name \<in> set (map fst df) then length df else length df + 1)"
  by (simp add: set_col_def)

lemma set_col_nth:
  "k < length df \<Longrightarrow>
     set_col name vals df ! k = (if fst (df ! k) = name then (name, vals) else df ! k)"
  by (auto simp: set_col_def nth_append)

lemma set_col_absent: "name \<notin> set (map fst df) \<Longrightarrow> set_col name vals df = df @ [(name, vals)]"
  by (simp add: set_col_def)

lemma names_overwrite:
  "map fst (map (\<lambda>c. if fst c = name then (name, vals) else c) df) = map fst df"
  by (induction df) auto

lemma names_set_col:
  "map fst (set_col name vals df)
     = (if name \<in> set (map fst df) then map fst df else map fst df @ [name])"
  using names_overwrite [of name vals df] by (simp add: set_col_def)

lemma map_of_overwrite:
  "name \<in> set (map fst df) \<Longrightarrow>
     map_of (map (\<lambda>c. if fst c = name then (name, vals) else c) df) name = Some vals"
  by (induction df) auto

lemma map_of_overwrite_other:
  "name' \<noteq> name \<Longrightarrow>
     map_of (map (\<lambda>c. if fst c = name then (name, vals) else c) df) name' = map_of df name'"
  by (induction df) auto

lemma get_col_set_col: "get_col name (set_col name vals df) = Some vals"
  by (auto simp: get_col_def set_col_def map_of_overwrite map_of_eq_None_iff[symmetric] map_add_def
      split: option.splits)

lemma get_col_set_col_other:
  "name' \<noteq> name \<Longrightarrow> get_col name' (set_col name vals df) = get_col name' df"
  by (auto simp: get_col_def set_col_def map_of_overwrite_other map_add_def split: option.splits)

lemma length_dist: "length (dist n wd ideal) = n"
  by (simp add: dist_def)

lemma length_scores: "length (scores n data ws il) = n"
  by (simp add: scores_def Let_def length_dist)

lemma length_rank_desc: "length (rank_desc s) = length s"
  by (simp add: rank_desc_def)

lemma length_astype_int: "astype_int xs = Some rk \<Longrightarrow> length rk = length xs"
  by (auto simp: astype_int_def dest: those_list_length)


lemma nrows_set_col: "df \<noteq> [] \<Longrightarrow> fst (hd df) \<noteq> name \<Longrightarrow> nrows (set_col name vals df) = nrows df"
  by (cases df) (auto simp: nrows_def set_col_def)

lemma topsis_written_frame:
  assumes "written (topsis pf fs wr f w im out) = Some (p, tbl)" and "fs f = Csv df"
  shows "\<exists>data ws il rk. validate pf fs f w im = Inr (df, data, ws, il)
     \<and> astype_int (rank_desc (scores (nrows df) data ws il)) = Some rk
     \<and> length rk = nrows df
     \<and> p = out
     \<and> tbl = set_col ''Rank'' (map CInt rk)
              (set_col ''Topsis Score'' (map CFloat (scores (nrows df) data ws il)) df)"
proof -
  from topsis_written [OF assms(1)] obtain df' data ws il rk where
    v: "validate pf fs f w im = Inr (df', data, ws, il)"
    and r: "astype_int (rank_desc (scores (nrows df') data ws il)) = Some rk"
    and t: "p = out" "tbl = set_col ''Rank'' (map CInt rk)
              (set_col ''Topsis Score'' (map CFloat (scores (nrows df') data ws il)) df')"
    by blast
  from validate_Inr_frame(1) [OF v] assms(2) have "df' = df" by simp
  moreover from r have "length rk = nrows df'"
    by (simp add: length_astype_int length_rank_desc length_scores)
  ultimately show ?thesis using v r t by blast
qed

text \<open>Distances, scores and ranks in general.\<close>

lemma finite_vals_nonneg:
  "(\<And>a. Fin a \<in> set xs \<Longrightarrow> 0 \<le> a) \<Longrightarrow> 0 \<le> sum_list (finite_vals xs)"
proof (induction xs rule: finite_vals.induct)
  case 1
  then show ?case by simp
next
  case (2 a xs)
  then have "0 \<le> a" "0 \<le> sum_list (finite_vals xs)" by simp_all
  then show ?case by simp
next
  case (3 xs)
  then show ?case by simp
qed

lemma fl_sq_nonneg: "fl_sq x = Fin a \<Longrightarrow> 0 \<le> a"
  by (cases x) auto

lemma sum_sq_nonneg: "0 \<le> sum_list (finite_vals (map (\<lambda>z. fl_sq (g z)) zs))"
  by (rule finite_vals_nonneg) (auto dest: fl_sq_nonneg[OF sym])

lemma dist_nth:
  assumes "i < n"
  shows "\<exists>d. 0 \<le> d \<and> dist n wd ideal ! i = Fin d"
proof -
  let ?t = "sum_list (finite_vals (map (\<lambda>z. fl_sq (case z of (c, b) \<Rightarrow> fl_sub (c ! i) b)) (zip wd ideal)))"
  have nn: "0 \<le> ?t" by (rule sum_sq_nonneg)
  have "(\<lambda>z. fl_sq (case z of (c, b) \<Rightarrow> fl_sub (c ! i) b)) = (\<lambda>(c, b). fl_sq (fl_sub (c ! i) b))"
    by auto
  then have "dist n wd ideal ! i = fl_sqrt (Fin ?t)"
    using assms by (simp add: dist_def sum_skipna_def)
  with nn have "dist n wd ideal ! i = Fin (sqrt ?t)" by simp
  moreover from nn have "0 \<le> sqrt ?t" by simp
  ultimately show ?thesis by blast
qed

lemma scores_nth:
  assumes "i < n"
  shows "\<exists>db dw. 0 \<le> db \<and> 0 \<le> dw
     \<and> dist n (weighted_data data ws) (ideal_best (weighted_data data ws) il) ! i = Fin db
     \<and> dist n (weighted_data data ws) (ideal_worst (weighted_data data ws) il) ! i = Fin dw
     \<and> scores n data ws il ! i = fl_div (Fin dw) (Fin (db + dw))"
proof -
  let ?wd = "weighted_data data ws"
  from dist_nth [OF assms] obtain db where
    db: "0 \<le> db" "dist n ?wd (ideal_best ?wd il) ! i = Fin db" by blast
  from dist_nth [OF assms] obtain dw where
    dw: "0 \<le> dw" "dist n ?wd (ideal_worst ?wd il) ! i = Fin dw" by blast
  have "scores n data ws il ! i
      = fl_div (dist n ?wd (ideal_worst ?wd il) ! i)
          (fl_add (dist n ?wd (ideal_best ?wd il) ! i) (dist n ?wd (ideal_worst ?wd il) ! i))"
    using assms by (simp add: scores_def Let_def length_dist)
  with db dw show ?thesis by auto
qed

lemma dist_sum_zero:
  assumes "i < n" and "dist n wd a ! i = Fin db" and "dist n wd b ! i = Fin dw"
    and "db + dw = 0"
  shows "dw = 0"
proof -
  from dist_nth [OF assms(1), of wd a] assms(2) have "0 \<le> db" by auto
  moreover from dist_nth [OF assms(1), of wd b] assms(3) have "0 \<le> dw" by auto
  ultimately show ?thesis using assms(4) by linarith
qed


lemma trunc_int_None: "trunc_int x = None \<longleftrightarrow> x = NaN"
  by (cases x) auto

lemma astype_int_None: "astype_int xs = None \<longleftrightarrow> NaN \<in> set xs"
proof -
  have "None \<in> set (map trunc_int xs) \<longleftrightarrow> NaN \<in> set xs"
  proof (induction xs)
    case Nil
    then show ?case by simp
  next
    case (Cons x xs)
    then show ?case by (cases x) auto
  qed
  then show ?thesis by (simp add: astype_int_def those_list_None)
qed

lemma rank_desc_NaN: "NaN \<in> set (rank_desc s) \<longleftrightarrow> NaN \<in> set s"
proof -
  have "NaN \<in> set (map (\<lambda>x. case x of NaN \<Rightarrow> NaN | Fin v \<Rightarrow> Fin (h v)) xs) \<longleftrightarrow> NaN \<in> set xs"
    for h xs
  proof (induction xs)
    case Nil
    then show ?case by simp
  next
    case (Cons x xs)
    then show ?case by (cases x) auto
  qed
  from this [of "\<lambda>v. real (length (filter (\<lambda>u. v < u) (finite_vals s)))
                          + (real (length (filter (\<lambda>u. u = v) (finite_vals s))) + 1) / 2" s]
  show ?thesis by (simp add: rank_desc_def)
qed

lemma ranks_None: "astype_int (rank_desc s) = None \<longleftrightarrow> NaN \<in> set s"
  by (simp add: astype_int_None rank_desc_NaN)

lemma map_Fin_finite_vals: "NaN \<notin> set xs \<Longrightarrow> map Fin (finite_vals xs) = xs"
  by (induction xs rule: finite_vals.induct) auto

lemma finite_vals_map_Fin: "finite_vals (map Fin s) = s"
  by (induction s) auto


lemma topsis_raises:
  assumes "validate pf fs f w im = Inr (df, data, ws, il)"
    and "NaN \<in> set (scores (nrows df) data ws il)"
  shows "topsis pf fs wr f w im out
           = \<lparr>printed = [], written = None, outcome = Raised IntCastingNaNError\<rparr>"
proof -
  from assms(2) have "astype_int (rank_desc (scores (nrows df) data ws il)) = None"
    by (simp only: ranks_None)
  then show ?thesis by (simp add: topsis_Inr [OF assms(1)])
qed

lemma topsis_completes:
  assumes "validate pf fs f w im = Inr (df, data, ws, il)"
    and "NaN \<notin> set (scores (nrows df) data ws il)"
    and "wr out"
  shows "\<exists>tbl. topsis pf fs wr f w im out
           = \<lparr>printed = [Completed out], written = Some (out, tbl), outcome = ReturnedNone\<rparr>"
proof -
  from assms(2) have "astype_int (rank_desc (scores (nrows df) data ws il)) \<noteq> None"
    by (simp only: ranks_None not_False_eq_True)
  then obtain rk where "astype_int (rank_desc (scores (nrows df) data ws il)) = Some rk"
    by blast
  with assms(3) show ?thesis by (simp add: topsis_Inr [OF assms(1)])
qed



lemma fl_mul_NaN: "fl_mul NaN w = NaN"
  by simp



lemma floor_half: "\<lfloor>real g + (real t + 1) / 2\<rfloor> = int g + (int t + 1) div 2"
proof -
  have "real g + (real t + 1) / 2 = of_int (int g) + real_of_int (int t + 1) / real_of_int 2"
    by simp
  also have "\<lfloor>\<dots>\<rfloor> = int g + \<lfloor>real_of_int (int t + 1) / real_of_int 2\<rfloor>"
    using floor_add_int [of "real_of_int (int t + 1) / real_of_int 2" "int g"]
    by (simp only: add.commute)
  also have "\<lfloor>real_of_int (int t + 1) / real_of_int 2\<rfloor> = (int t + 1) div 2"
    by (rule floor_divide_of_int_eq)
  finally show ?thesis .
qed

lemma trunc_rank:
  "trunc_int (Fin (real g + (real t + 1) / 2)) = Some (int g + (int t + 1) div 2)"
proof -
  have "0 \<le> real g + (real t + 1) / 2" by simp
  then show ?thesis by (simp only: trunc_int.simps if_True floor_half)
qed

lemma rank_desc_Fin:
  "rank_desc (map Fin s)
     = map (\<lambda>v. Fin (real (length (filter (\<lambda>u. v < u) s))
                     + (real (length (filter (\<lambda>u. u = v) s)) + 1) / 2)) s"
  by (simp add: rank_desc_def finite_vals_map_Fin)

lemma ranks_Fin:
  "astype_int (rank_desc (map Fin s))
     = Some (map (\<lambda>v. int (length (filter (\<lambda>u. v < u) s))
                        + (int (length (filter (\<lambda>u. u = v) s)) + 1) div 2) s)"
proof -
  have "map trunc_int (rank_desc (map Fin s))
      = map Some (map (\<lambda>v. int (length (filter (\<lambda>u. v < u) s))
                        + (int (length (filter (\<lambda>u. u = v) s)) + 1) div 2) s)"
    by (simp only: rank_desc_Fin map_map o_def trunc_rank)
  then show ?thesis by (simp only: astype_int_def those_list_Some)
qed





















lemma set_finite_vals: "set (finite_vals xs) = {a. Fin a \<in> set xs}"
  by (induction xs rule: finite_vals.induct) auto

lemma col_norm_zero_cells:
  assumes "col_norm c = Fin 0" and "Fin a \<in> set c"
  shows "a = 0"
proof -
  let ?sq = "finite_vals (map fl_sq c)"
  have nn: "\<And>x. x \<in> set ?sq \<Longrightarrow> 0 \<le> x"
    by (auto simp: set_finite_vals dest: fl_sq_nonneg [OF sym])
  then have t: "0 \<le> sum_list ?sq" by (rule sum_list_nonneg)
  with assms(1) have "sqrt (sum_list ?sq) = 0" by (simp add: col_norm_def sum_skipna_def)
  then have "sum_list ?sq = 0" by simp
  with nn have z: "\<And>x. x \<in> set ?sq \<Longrightarrow> x = 0"
    by (simp add: sum_list_nonneg_eq_0_iff)
  from assms(2) have "fl_sq (Fin a) \<in> set (map fl_sq c)" by force
  then have "a * a \<in> set ?sq" by (simp add: set_finite_vals)
  from z [OF this] show ?thesis by simp
qed

section \<open>Concrete runs\<close>

lemma upt_2: "[0..<2] = [0, 1]"
  by (simp add: upt_rec)

lemma upt_4: "[0..<4] = [0, 1, 2, 3]"
  by (simp add: upt_rec)

lemma sqrt_25: "sqrt 25 = 5"
  by (rule real_sqrt_unique) simp_all

lemma sqrt_169: "sqrt 169 = 13"
  by (rule real_sqrt_unique) simp_all

lemma sqrt_1_25: "sqrt (1 / 25) = 1 / 5"
  by (rule real_sqrt_unique) (simp_all add: power2_eq_square)

lemma sqrt_49_169: "sqrt (49 / 169) = 7 / 13"
  by (rule real_sqrt_unique) (simp_all add: power2_eq_square)

subsection \<open>The table with a column named Rank\<close>

lemma astype_rank_col:
  "astype_float int_literal (map snd (tl tbl_rank_col)) = Some [[Fin 3, Fin 4], [Fin 4, Fin 3]]"
  by (simp add: tbl_rank_col_def astype_float_def f64_of_int_def)

lemma validate_rank_col:
  "validate int_literal (fs_single ''in.csv'' tbl_rank_col) ''in.csv'' ''1,1'' ''+,+''
     = Inr (tbl_rank_col, [[Fin 3, Fin 4], [Fin 4, Fin 3]], [Fin 1, Fin 1], [''+'', ''+''])"
proof -
  have "validate int_literal (fs_single ''in.csv'' tbl_rank_col) ''in.csv'' ''1,1'' ''+,+''
     = Inr (tbl_rank_col, [[Fin 3, Fin 4], [Fin 4, Fin 3]], [Fin 1, Fin 1], split_comma ''+,+'')"
    by (rule validate_Inr [where df = tbl_rank_col])
       (simp_all add: fs_single_def astype_rank_col split_11 split_pp int_literal_1,
        simp add: tbl_rank_col_def)
  then show ?thesis by (simp add: split_pp)
qed

lemma weighted_rank_col:
  "weighted_data [[Fin 3, Fin 4], [Fin 4, Fin 3]] [Fin 1, Fin 1]
     = [[Fin (3 / 5), Fin (4 / 5)], [Fin (4 / 5), Fin (3 / 5)]]"
  by (simp add: weighted_data_def normalized_data_def col_norm_def sum_skipna_def sqrt_25)

lemma ideal_rank_col:
  "ideal_best [[Fin (3 / 5), Fin (4 / 5)], [Fin (4 / 5), Fin (3 / 5)]] [''+'', ''+'']
     = [Fin (4 / 5), Fin (4 / 5)]"
  "ideal_worst [[Fin (3 / 5), Fin (4 / 5)], [Fin (4 / 5), Fin (3 / 5)]] [''+'', ''+'']
     = [Fin (3 / 5), Fin (3 / 5)]"
  by (simp_all add: ideal_best_def ideal_worst_def max_skipna_def min_skipna_def)

lemma dist_rank_col:
  "dist 2 [[Fin (3 / 5), Fin (4 / 5)], [Fin (4 / 5), Fin (3 / 5)]] [Fin (4 / 5), Fin (4 / 5)]
     = [Fin (1 / 5), Fin (1 / 5)]"
  "dist 2 [[Fin (3 / 5), Fin (4 / 5)], [Fin (4 / 5), Fin (3 / 5)]] [Fin (3 / 5), Fin (3 / 5)]
     = [Fin (1 / 5), Fin (1 / 5)]"
  by (simp_all add: dist_def upt_2 sum_skipna_def sqrt_1_25)

lemma scores_rank_col:
  "scores 2 [[Fin 3, Fin 4], [Fin 4, Fin 3]] [Fin 1, Fin 1] [''+'', ''+'']
     = [Fin (1 / 2), Fin (1 / 2)]"
  by (simp add: scores_def weighted_rank_col ideal_rank_col dist_rank_col)

lemma ranks_rank_col: "astype_int (rank_desc [Fin (1 / 2), Fin (1 / 2)]) = Some [1, 1]"
  by (simp add: astype_int_def rank_desc_def)

lemma run_rank_col:
  "topsis int_literal (fs_single ''in.csv'' tbl_rank_col) wr_all ''in.csv'' ''1,1'' ''+,+'' ''out.csv''
     = \<lparr>printed = [Completed ''out.csv''],
        written = Some (''out.csv'',
          [(''Name'', [CStr ''A'', CStr ''B'']),
           (''Rank'', [CInt 1, CInt 1]),
           (''Q'', [CInt 4, CInt 3]),
           (''Topsis Score'', [CFloat (Fin (1 / 2)), CFloat (Fin (1 / 2))])]),
        outcome = ReturnedNone\<rparr>"
proof -
  have n: "nrows tbl_rank_col = 2" by (simp add: nrows_def tbl_rank_col_def)
  have "set_col ''Rank'' [CInt 1, CInt 1]
          (set_col ''Topsis Score'' [CFloat (Fin (1 / 2)), CFloat (Fin (1 / 2))] tbl_rank_col)
        = [(''Name'', [CStr ''A'', CStr ''B'']),
           (''Rank'', [CInt 1, CInt 1]),
           (''Q'', [CInt 4, CInt 3]),
           (''Topsis Score'', [CFloat (Fin (1 / 2)), CFloat (Fin (1 / 2))])]"
    by (simp add: set_col_def tbl_rank_col_def)
  then show ?thesis
    by (simp add: topsis_Inr [OF validate_rank_col] n scores_rank_col ranks_rank_col wr_all_def)
qed


subsection \<open>The table with three equal rows\<close>

lemma validate_ties:
  "validate int_literal (fs_single ''in.csv'' tbl_ties) ''in.csv'' ''1,1'' ''+,-''
     = Inr (tbl_ties, [[Fin 1, Fin 1, Fin 1, Fin 1], [Fin 4, Fin 4, Fin 4, Fin 11]],
            [Fin 1, Fin 1], [''+'', ''-''])"
proof -
  have "validate int_literal (fs_single ''in.csv'' tbl_ties) ''in.csv'' ''1,1'' ''+,-''
     = Inr (tbl_ties, [[Fin 1, Fin 1, Fin 1, Fin 1], [Fin 4, Fin 4, Fin 4, Fin 11]],
            [Fin 1, Fin 1], split_comma ''+,-'')"
    by (rule validate_Inr [where df = tbl_ties])
       (simp_all add: fs_single_def astype_ties split_11 split_pm int_literal_1,
        simp add: tbl_ties_def)
  then show ?thesis by (simp add: split_pm)
qed

lemma weighted_ties:
  "weighted_data [[Fin 1, Fin 1, Fin 1, Fin 1], [Fin 4, Fin 4, Fin 4, Fin 11]] [Fin 1, Fin 1]
     = [[Fin (1 / 2), Fin (1 / 2), Fin (1 / 2), Fin (1 / 2)],
        [Fin (4 / 13), Fin (4 / 13), Fin (4 / 13), Fin (11 / 13)]]"
  by (simp add: weighted_data_def normalized_data_def col_norm_def sum_skipna_def sqrt_169)

lemma ideal_ties:
  "ideal_best [[Fin (1 / 2), Fin (1 / 2), Fin (1 / 2), Fin (1 / 2)],
        [Fin (4 / 13), Fin (4 / 13), Fin (4 / 13), Fin (11 / 13)]] [''+'', ''-'']
     = [Fin (1 / 2), Fin (4 / 13)]"
  "ideal_worst [[Fin (1 / 2), Fin (1 / 2), Fin (1 / 2), Fin (1 / 2)],
        [Fin (4 / 13), Fin (4 / 13), Fin (4 / 13), Fin (11 / 13)]] [''+'', ''-'']
     = [Fin (1 / 2), Fin (11 / 13)]"
  by (simp_all add: ideal_best_def ideal_worst_def max_skipna_def min_skipna_def)

lemma dist_ties:
  "dist 4 [[Fin (1 / 2), Fin (1 / 2), Fin (1 / 2), Fin (1 / 2)],
        [Fin (4 / 13), Fin (4 / 13), Fin (4 / 13), Fin (11 / 13)]] [Fin (1 / 2), Fin (4 / 13)]
     = [Fin 0, Fin 0, Fin 0, Fin (7 / 13)]"
  "dist 4 [[Fin (1 / 2), Fin (1 / 2), Fin (1 / 2), Fin (1 / 2)],
        [Fin (4 / 13), Fin (4 / 13), Fin (4 / 13), Fin (11 / 13)]] [Fin (1 / 2), Fin (11 / 13)]
     = [Fin (7 / 13), Fin (7 / 13), Fin (7 / 13), Fin 0]"
  by (simp_all add: dist_def upt_4 sum_skipna_def sqrt_49_169)

lemma scores_ties:
  "scores 4 [[Fin 1, Fin 1, Fin 1, Fin 1], [Fin 4, Fin 4, Fin 4, Fin 11]] [Fin 1, Fin 1]
      [''+'', ''-'']
     = [Fin 1, Fin 1, Fin 1, Fin 0]"
  by (simp add: scores_def weighted_ties ideal_ties dist_ties)

lemma ranks_ties: "astype_int (rank_desc [Fin 1, Fin 1, Fin 1, Fin 0]) = Some [2, 2, 2, 4]"
  by (simp add: astype_int_def rank_desc_def)

lemma run_ties:
  "topsis int_literal (fs_single ''in.csv'' tbl_ties) wr_all ''in.csv'' ''1,1'' ''+,-'' ''out.csv''
     = \<lparr>printed = [Completed ''out.csv''],
        written = Some (''out.csv'',
          tbl_ties @
          [(''Topsis Score'', [CFloat (Fin 1), CFloat (Fin 1), CFloat (Fin 1), CFloat (Fin 0)]),
           (''Rank'', [CInt 2, CInt 2, CInt 2, CInt 4])]),
        outcome = ReturnedNone\<rparr>"
proof -
  have n: "nrows tbl_ties = 4" by (simp add: nrows_def tbl_ties_def)
  have "set_col ''Rank'' [CInt 2, CInt 2, CInt 2, CInt 4]
          (set_col ''Topsis Score'' [CFloat (Fin 1), CFloat (Fin 1), CFloat (Fin 1), CFloat (Fin 0)]
             tbl_ties)
        = tbl_ties @
          [(''Topsis Score'', [CFloat (Fin 1), CFloat (Fin 1), CFloat (Fin 1), CFloat (Fin 0)]),
           (''Rank'', [CInt 2, CInt 2, CInt 2, CInt 4])]"
    by (simp add: set_col_def tbl_ties_def)
  then show ?thesis
    by (simp add: topsis_Inr [OF validate_ties] n scores_ties ranks_ties wr_all_def)
qed

subsection \<open>The table with a column of zeros\<close>









subsection \<open>The table with one row\<close>

lemma astype_one_row:
  "astype_float int_literal (map snd (tl tbl_one_row)) = Some [[Fin 1], [Fin 2]]"
  by (simp add: tbl_one_row_def astype_float_def f64_of_int_def)

lemma validate_one_row:
  "validate int_literal (fs_single ''in.csv'' tbl_one_row) ''in.csv'' ''1,1'' ''+,+''
     = Inr (tbl_one_row, [[Fin 1], [Fin 2]], [Fin 1, Fin 1], [''+'', ''+''])"
proof -
  have "validate int_literal (fs_single ''in.csv'' tbl_one_row) ''in.csv'' ''1,1'' ''+,+''
     = Inr (tbl_one_row, [[Fin 1], [Fin 2]], [Fin 1, Fin 1], split_comma ''+,+'')"
    by (rule validate_Inr [where df = tbl_one_row])
       (simp_all add: fs_single_def astype_one_row split_11 split_pp int_literal_1,
        simp add: tbl_one_row_def)
  then show ?thesis by (simp add: split_pp)
qed

lemma weighted_one_row: "weighted_data [[Fin 1], [Fin 2]] [Fin 1, Fin 1] = [[Fin 1], [Fin 1]]"
  by (simp add: weighted_data_def normalized_data_def col_norm_def sum_skipna_def)

lemma ideal_one_row:
  "ideal_best [[Fin 1], [Fin 1]] [''+'', ''+''] = [Fin 1, Fin 1]"
  "ideal_worst [[Fin 1], [Fin 1]] [''+'', ''+''] = [Fin 1, Fin 1]"
  by (simp_all add: ideal_best_def ideal_worst_def max_skipna_def min_skipna_def)

lemma dist_one_row: "dist (Suc 0) [[Fin 1], [Fin 1]] [Fin 1, Fin 1] = [Fin 0]"
  by (simp add: dist_def sum_skipna_def)

lemma scores_one_row: "scores (Suc 0) [[Fin 1], [Fin 2]] [Fin 1, Fin 1] [''+'', ''+''] = [NaN]"
  by (simp add: scores_def weighted_one_row ideal_one_row dist_one_row)

lemma run_one_row:
  "topsis int_literal (fs_single ''in.csv'' tbl_one_row) wr_all ''in.csv'' ''1,1'' ''+,+'' ''out.csv''
     = \<lparr>printed = [], written = None, outcome = Raised IntCastingNaNError\<rparr>"
proof -
  have n: "nrows tbl_one_row = Suc 0" by (simp add: nrows_def tbl_one_row_def)
  have "astype_int (rank_desc [NaN]) = None" by (simp add: astype_int_def rank_desc_def)
  then show ?thesis
    by (simp add: topsis_Inr [OF validate_one_row] n scores_one_row)
qed

subsection \<open>The table with four equal rows\<close>

lemma nrows_one_row: "nrows tbl_one_row = Suc 0"
  by (simp add: nrows_def tbl_one_row_def)











subsection \<open>The specification's formulas on the table with a column named Rank\<close>







subsection \<open>Weights that are not positive numbers\<close>

lemma split_nan_m1: "split_comma ''nan,-1'' = [''nan'', ''-1'']"
  by (simp add: split_comma_def)

lemma nan_or_int_values: "nan_or_int ''nan'' = Some NaN" "nan_or_int ''-1'' = Some (Fin (- 1))"
  by (simp_all add: nan_or_int_def Let_def)

lemma astype_ties_nan_or_int:
  "astype_float nan_or_int (map snd (tl tbl_ties))
     = Some [[Fin 1, Fin 1, Fin 1, Fin 1], [Fin 4, Fin 4, Fin 4, Fin 11]]"
  by (simp add: tbl_ties_def astype_float_def f64_of_int_def)

subsection \<open>The table with an empty cell\<close>














section \<open>Validation failures on the command line\<close>



section \<open>What a caller of the function sees on a failure\<close>



section \<open>The sign of the weights\<close>

text \<open>
  Claim C5, as the code has it. Once the table and the counts have passed, the weight
  string is rejected (with "Weights must be numeric.") exactly when one of its tokens
  does not parse as a float. When every token parses, the weights are taken exactly as
  \<^verbatim>\<open>float\<close> parsed them, whatever their value, zero, negative numbers and NaN
  included: validation then accepts the input with these weights when every impact is
  + or -, and otherwise fails on the impacts. There is no check of the sign.
\<close>

theorem weights_accepted_whatever_sign:
  assumes "fs f = Csv df" and "\<not> length df < 3"
    and "astype_float pf (map snd (tl df)) = Some data"
    and "length (split_comma w) = length data" and "length (split_comma im) = length data"
  shows "(validate pf fs f w im = Inl WeightsNotNumeric
            \<longleftrightarrow> (\<exists>t \<in> set (split_comma w). pf t = None))
       \<and> ((\<forall>t \<in> set (split_comma w). pf t \<noteq> None)
          \<longrightarrow> (\<exists>ws. map Some ws = map pf (split_comma w)
                 \<and> validate pf fs f w im
                     = (if \<forall>imp \<in> set (split_comma im). imp = ''+'' \<or> imp = ''-''
                        then Inr (df, data, ws, split_comma im) else Inl BadImpact)))"
proof (cases "\<exists>t \<in> set (split_comma w). pf t = None")
  case True
  with assms have "validate pf fs f w im = Inl WeightsNotNumeric"
    using validate_WeightsNotNumeric [of fs f df pf data w im] by blast
  with True show ?thesis by blast
next
  case False
  then have "None \<notin> set (map pf (split_comma w))" by force
  then have "those_list (map pf (split_comma w)) \<noteq> None"
    by (simp only: those_list_None not_False_eq_True)
  then obtain ws where ws: "those_list (map pf (split_comma w)) = Some ws" by blast
  then have eq: "map Some ws = map pf (split_comma w)" by (simp add: those_list_Some)
  have a: "validate pf fs f w im \<noteq> Inl WeightsNotNumeric"
    using assms ws by (simp add: validate_def Let_def)
  have b: "validate pf fs f w im
             = (if \<forall>imp \<in> set (split_comma im). imp = ''+'' \<or> imp = ''-''
                then Inr (df, data, ws, split_comma im) else Inl BadImpact)"
  proof (cases "\<forall>imp \<in> set (split_comma im). imp = ''+'' \<or> imp = ''-''")
    case True
    with validate_Inr [of fs f df pf data w im ws] assms ws show ?thesis by simp
  next
    case nb: False
    then have "\<exists>imp \<in> set (split_comma im). imp \<noteq> ''+'' \<and> imp \<noteq> ''-''" by blast
    with validate_BadImpact [of fs f df pf data w im ws] assms ws nb show ?thesis by simp
  qed
  from False a b eq show ?thesis by blast
qed

text \<open>
  The claim as stated fails: the weights \<^verbatim>\<open>"1,-1"\<close> parse, hold a negative number and
  pass validation.
\<close>

theorem nonpositive_weight_counterexample:
  "those_list (map int_literal (split_comma ''1,-1'')) = Some [Fin 1, Fin (- 1)]
   \<and> validate int_literal (fs_single ''in.csv'' tbl_ties) ''in.csv'' ''1,-1'' ''+,-''
       = Inr (tbl_ties, [[Fin 1, Fin 1, Fin 1, Fin 1], [Fin 4, Fin 4, Fin 4, Fin 11]],
              [Fin 1, Fin (- 1)], [''+'', ''-''])"
proof -
  have l: "length tbl_ties = 3" by (simp add: tbl_ties_def)
  have w: "those_list (map int_literal (split_comma ''1,-1'')) = Some [Fin 1, Fin (- 1)]"
    by (simp add: split_1m1 int_literal_1 int_literal_m1)
  have "validate int_literal (fs_single ''in.csv'' tbl_ties) ''in.csv'' ''1,-1'' ''+,-''
       = Inr (tbl_ties, [[Fin 1, Fin 1, Fin 1, Fin 1], [Fin 4, Fin 4, Fin 4, Fin 11]],
              [Fin 1, Fin (- 1)], split_comma ''+,-'')"
    by (rule validate_Inr [where df = tbl_ties])
       (simp_all add: fs_single_def l astype_ties w, simp_all add: split_1m1 split_pm)
  with w show ?thesis by (simp add: split_pm)
qed

theorem weights_accepted_whatever_sign_witness:
  "fs_single ''in.csv'' tbl_ties ''in.csv'' = Csv tbl_ties
   \<and> \<not> length tbl_ties < 3
   \<and> length (split_comma ''nan,-1'') = 2 \<and> length (split_comma ''+,-'') = 2
   \<and> those_list (map nan_or_int (split_comma ''nan,-1'')) = Some [NaN, Fin (- 1)]
   \<and> validate nan_or_int (fs_single ''in.csv'' tbl_ties) ''in.csv'' ''nan,-1'' ''+,-''
        = Inr (tbl_ties, [[Fin 1, Fin 1, Fin 1, Fin 1], [Fin 4, Fin 4, Fin 4, Fin 11]],
               [NaN, Fin (- 1)], [''+'', ''-''])"
proof -
  have a: "fs_single ''in.csv'' tbl_ties ''in.csv'' = Csv tbl_ties" by (simp add: fs_single_def)
  have b: "\<not> length tbl_ties < 3" by (simp add: tbl_ties_def)
  have c: "length (split_comma ''nan,-1'')
             = length [[Fin 1, Fin 1, Fin 1, Fin 1], [Fin 4, Fin 4, Fin 4, Fin 11]]"
    by (simp add: split_nan_m1)
  have d: "length (split_comma ''+,-'')
             = length [[Fin 1, Fin 1, Fin 1, Fin 1], [Fin 4, Fin 4, Fin 4, Fin 11]]"
    by (simp add: split_pm)
  have p: "those_list (map nan_or_int (split_comma ''nan,-1'')) = Some [NaN, Fin (- 1)]"
    by (simp add: split_nan_m1 nan_or_int_values)
  from weights_accepted_whatever_sign [of "fs_single ''in.csv'' tbl_ties" "''in.csv''" tbl_ties
      nan_or_int "[[Fin 1, Fin 1, Fin 1, Fin 1], [Fin 4, Fin 4, Fin 4, Fin 11]]" "''nan,-1''"
      "''+,-''"] a b astype_ties_nan_or_int c d
  have v: "validate nan_or_int (fs_single ''in.csv'' tbl_ties) ''in.csv'' ''nan,-1'' ''+,-''
              = Inr (tbl_ties, [[Fin 1, Fin 1, Fin 1, Fin 1], [Fin 4, Fin 4, Fin 4, Fin 11]],
                     [NaN, Fin (- 1)], [''+'', ''-''])"
    by (auto simp: split_nan_m1 nan_or_int_values split_pm map_eq_Cons_conv)
  with v a b c d p show ?thesis by simp
qed

section \<open>The shape of the output table\<close>

text \<open>
  Claim C7, as the code has it. When the function writes its output and the input table
  has no column named "Topsis Score" or "Rank", the output table is the input table, its
  columns and their cells unchanged and in the same order, followed by exactly two
  columns, the scores and the ranks, each with one cell per input row; the output has
  two columns more than the input and is written at the output path.
\<close>

theorem output_appends_two_columns:
  assumes "written (topsis pf fs wr f w im out) = Some (p, tbl)" and "fs f = Csv df"
    and "''Topsis Score'' \<notin> set (map fst df)" and "''Rank'' \<notin> set (map fst df)"
  shows "\<exists>s r. tbl = df @ [(''Topsis Score'', map CFloat s), (''Rank'', map CInt r)]
           \<and> length s = nrows df \<and> length r = nrows df
           \<and> length tbl = length df + 2 \<and> p = out"
proof -
  from topsis_written_frame [OF assms(1,2)] obtain data ws il rk where
    r: "length rk = nrows df" and t: "p = out"
      "tbl = set_col ''Rank'' (map CInt rk)
              (set_col ''Topsis Score'' (map CFloat (scores (nrows df) data ws il)) df)"
    by blast
  let ?s = "scores (nrows df) data ws il"
  have 1: "set_col ''Topsis Score'' (map CFloat ?s) df = df @ [(''Topsis Score'', map CFloat ?s)]"
    using assms(3) by (rule set_col_absent)
  have "''Rank'' \<notin> set (map fst (df @ [(''Topsis Score'', map CFloat ?s)]))"
    using assms(4) by simp
  then have 2: "set_col ''Rank'' (map CInt rk) (df @ [(''Topsis Score'', map CFloat ?s)])
      = (df @ [(''Topsis Score'', map CFloat ?s)]) @ [(''Rank'', map CInt rk)]"
    by (rule set_col_absent)
  from t 1 2 have e: "tbl = df @ [(''Topsis Score'', map CFloat ?s), (''Rank'', map CInt rk)]"
    by simp
  then have "length tbl = length df + 2" by simp
  moreover have "length ?s = nrows df" by (rule length_scores)
  ultimately show ?thesis using e r t(1) by blast
qed

text \<open>
  The claim as stated, for every valid input, fails: on a valid table with a criterion
  column named "Rank" the output has one column more than the input, not two, and the
  cells of that column are replaced.
\<close>

theorem rank_column_counterexample:
  "written (topsis int_literal (fs_single ''in.csv'' tbl_rank_col) wr_all ''in.csv'' ''1,1'' ''+,+''
              ''out.csv'')
     = Some (''out.csv'',
          [(''Name'', [CStr ''A'', CStr ''B'']),
           (''Rank'', [CInt 1, CInt 1]),
           (''Q'', [CInt 4, CInt 3]),
           (''Topsis Score'', [CFloat (Fin (1 / 2)), CFloat (Fin (1 / 2))])])
   \<and> length tbl_rank_col = 3
   \<and> get_col ''Rank'' tbl_rank_col = Some [CInt 3, CInt 4]"
  by (simp add: run_rank_col) (simp add: tbl_rank_col_def get_col_def)

theorem output_appends_two_columns_witness:
  "written (topsis int_literal (fs_single ''in.csv'' tbl_ties) wr_all ''in.csv'' ''1,1'' ''+,-''
              ''out.csv'')
     = Some (''out.csv'',
          tbl_ties @
          [(''Topsis Score'', [CFloat (Fin 1), CFloat (Fin 1), CFloat (Fin 1), CFloat (Fin 0)]),
           (''Rank'', [CInt 2, CInt 2, CInt 2, CInt 4])])
   \<and> fs_single ''in.csv'' tbl_ties ''in.csv'' = Csv tbl_ties
   \<and> ''Topsis Score'' \<notin> set (map fst tbl_ties) \<and> ''Rank'' \<notin> set (map fst tbl_ties)
   \<and> length (tbl_ties @
          [(''Topsis Score'', [CFloat (Fin 1), CFloat (Fin 1), CFloat (Fin 1), CFloat (Fin 0)]),
           (''Rank'', [CInt 2, CInt 2, CInt 2, CInt 4])]) = length tbl_ties + 2"
  using output_appends_two_columns [of int_literal "fs_single ''in.csv'' tbl_ties" wr_all
      "''in.csv''" "''1,1''" "''+,-''" "''out.csv''" "''out.csv''"
      "tbl_ties @
          [(''Topsis Score'', [CFloat (Fin 1), CFloat (Fin 1), CFloat (Fin 1), CFloat (Fin 0)]),
           (''Rank'', [CInt 2, CInt 2, CInt 2, CInt 4])]" tbl_ties]
  by (simp add: run_ties fs_single_def) (simp add: tbl_ties_def)

section \<open>An input column named like an output column\<close>

text \<open>
  Claim C9. When the input table already has a column named "Topsis Score" or "Rank"
  and the function writes its output, that column is overwritten where it stands with
  the computed scores (or ranks) instead of a new column being appended: the output has
  fewer columns than the input plus two, the cells of the column of that name are the
  computed ones whatever the input held, and every other input column is unchanged.
\<close>

theorem existing_column_overwritten:
  assumes "written (topsis pf fs wr f w im out) = Some (p, tbl)" and "fs f = Csv df"
    and "''Topsis Score'' \<in> set (map fst df) \<or> ''Rank'' \<in> set (map fst df)"
  shows "length tbl < length df + 2
     \<and> (\<exists>data ws il rk. validate pf fs f w im = Inr (df, data, ws, il)
          \<and> astype_int (rank_desc (scores (nrows df) data ws il)) = Some rk
          \<and> (\<forall>k < length df. fst (df ! k) = ''Topsis Score''
                \<longrightarrow> tbl ! k = (''Topsis Score'', map CFloat (scores (nrows df) data ws il)))
          \<and> (\<forall>k < length df. fst (df ! k) = ''Rank''
                \<longrightarrow> tbl ! k = (''Rank'', map CInt rk))
          \<and> (\<forall>k < length df. fst (df ! k) \<noteq> ''Topsis Score'' \<and> fst (df ! k) \<noteq> ''Rank''
                \<longrightarrow> tbl ! k = df ! k))"
proof -
  from topsis_written_frame [OF assms(1,2)] obtain data ws il rk where
    v: "validate pf fs f w im = Inr (df, data, ws, il)"
    and r: "astype_int (rank_desc (scores (nrows df) data ws il)) = Some rk"
    and t: "tbl = set_col ''Rank'' (map CInt rk)
              (set_col ''Topsis Score'' (map CFloat (scores (nrows df) data ws il)) df)"
    by blast
  let ?sc = "map CFloat (scores (nrows df) data ws il)"
  let ?df1 = "set_col ''Topsis Score'' ?sc df"
  have len1: "length df \<le> length ?df1" by (simp add: length_set_col)
  have nth1: "?df1 ! k = (if fst (df ! k) = ''Topsis Score'' then (''Topsis Score'', ?sc) else df ! k)"
    if "k < length df" for k using that by (rule set_col_nth)
  have nth2: "tbl ! k = (if fst (?df1 ! k) = ''Rank'' then (''Rank'', map CInt rk) else ?df1 ! k)"
    if "k < length df" for k
    unfolding t using that len1 by (intro set_col_nth) simp
  have L: "length tbl < length df + 2"
  proof (cases "''Topsis Score'' \<in> set (map fst df)")
    case True
    then have "length ?df1 = length df" by (simp add: length_set_col)
    then show ?thesis unfolding t by (simp add: length_set_col)
  next
    case False
    with assms(3) have "''Rank'' \<in> set (map fst df)" by simp
    then have "''Rank'' \<in> set (map fst ?df1)" by (simp add: names_set_col)
    then have "length tbl = length ?df1" unfolding t by (simp add: length_set_col)
    then show ?thesis by (simp add: length_set_col)
  qed
  have A: "\<forall>k < length df. fst (df ! k) = ''Topsis Score'' \<longrightarrow> tbl ! k = (''Topsis Score'', ?sc)"
    by (simp add: nth1 nth2)
  have B: "\<forall>k < length df. fst (df ! k) = ''Rank'' \<longrightarrow> tbl ! k = (''Rank'', map CInt rk)"
    by (simp add: nth1 nth2)
  have C: "\<forall>k < length df. fst (df ! k) \<noteq> ''Topsis Score'' \<and> fst (df ! k) \<noteq> ''Rank''
                \<longrightarrow> tbl ! k = df ! k"
    by (simp add: nth1 nth2)
  from L v r A B C show ?thesis by blast
qed

theorem existing_column_overwritten_witness:
  "written (topsis int_literal (fs_single ''in.csv'' tbl_rank_col) wr_all ''in.csv'' ''1,1'' ''+,+''
              ''out.csv'')
     = Some (''out.csv'',
          [(''Name'', [CStr ''A'', CStr ''B'']),
           (''Rank'', [CInt 1, CInt 1]),
           (''Q'', [CInt 4, CInt 3]),
           (''Topsis Score'', [CFloat (Fin (1 / 2)), CFloat (Fin (1 / 2))])])
   \<and> fs_single ''in.csv'' tbl_rank_col ''in.csv'' = Csv tbl_rank_col
   \<and> ''Rank'' \<in> set (map fst tbl_rank_col)
   \<and> length ([(''Name'', [CStr ''A'', CStr ''B'']),
           (''Rank'', [CInt 1, CInt 1]),
           (''Q'', [CInt 4, CInt 3]),
           (''Topsis Score'', [CFloat (Fin (1 / 2)), CFloat (Fin (1 / 2))])]) < length tbl_rank_col + 2
   \<and> tbl_rank_col ! 1 = (''Rank'', [CInt 3, CInt 4])"
  using existing_column_overwritten [of int_literal "fs_single ''in.csv'' tbl_rank_col" wr_all
      "''in.csv''" "''1,1''" "''+,+''" "''out.csv''" "''out.csv''"
      "[(''Name'', [CStr ''A'', CStr ''B'']),
           (''Rank'', [CInt 1, CInt 1]),
           (''Q'', [CInt 4, CInt 3]),
           (''Topsis Score'', [CFloat (Fin (1 / 2)), CFloat (Fin (1 / 2))])]" tbl_rank_col]
  by (simp add: run_rank_col fs_single_def) (simp add: tbl_rank_col_def)

section \<open>The bounds of the score\<close>





section \<open>A row at distance zero from both ideal points\<close>

text \<open>
  Claim C4, as the code has it. For a validated input and a row whose distances to the
  ideal best and to the ideal worst sum to zero, the score of the row is NaN (the
  quotient \<^verbatim>\<open>0/0\<close>), not 0.5, and the invocation ends with the exception of the
  conversion of the ranks to integers, printing nothing and writing no output.
\<close>

theorem degenerate_row_raises:
  assumes "validate pf fs f w im = Inr (df, data, ws, il)" and "i < nrows df"
    and "dist (nrows df) (weighted_data data ws) (ideal_best (weighted_data data ws) il) ! i
           = Fin db"
    and "dist (nrows df) (weighted_data data ws) (ideal_worst (weighted_data data ws) il) ! i
           = Fin dw"
    and "db + dw = 0"
  shows "scores (nrows df) data ws il ! i = NaN
       \<and> topsis pf fs wr f w im out
           = \<lparr>printed = [], written = None, outcome = Raised IntCastingNaNError\<rparr>"
proof -
  from scores_nth [OF assms(2), of data ws il] assms(3,4)
  have "scores (nrows df) data ws il ! i = fl_div (Fin dw) (Fin (db + dw))" by auto
  with assms(5) have s: "scores (nrows df) data ws il ! i = NaN" by simp
  from assms(2) have "i < length (scores (nrows df) data ws il)" by (simp add: length_scores)
  then have "scores (nrows df) data ws il ! i \<in> set (scores (nrows df) data ws il)"
    by (rule nth_mem)
  with s have "NaN \<in> set (scores (nrows df) data ws il)" by simp
  from topsis_raises [OF assms(1) this] s show ?thesis by simp
qed

text \<open>The claim as stated fails on a table with one row: its score is NaN.\<close>

theorem one_row_counterexample:
  "validate int_literal (fs_single ''in.csv'' tbl_one_row) ''in.csv'' ''1,1'' ''+,+''
     = Inr (tbl_one_row, [[Fin 1], [Fin 2]], [Fin 1, Fin 1], [''+'', ''+''])
   \<and> dist (nrows tbl_one_row) (weighted_data [[Fin 1], [Fin 2]] [Fin 1, Fin 1])
        (ideal_best (weighted_data [[Fin 1], [Fin 2]] [Fin 1, Fin 1]) [''+'', ''+'']) = [Fin 0]
   \<and> dist (nrows tbl_one_row) (weighted_data [[Fin 1], [Fin 2]] [Fin 1, Fin 1])
        (ideal_worst (weighted_data [[Fin 1], [Fin 2]] [Fin 1, Fin 1]) [''+'', ''+'']) = [Fin 0]
   \<and> scores (nrows tbl_one_row) [[Fin 1], [Fin 2]] [Fin 1, Fin 1] [''+'', ''+''] = [NaN]
   \<and> topsis int_literal (fs_single ''in.csv'' tbl_one_row) wr_all ''in.csv'' ''1,1'' ''+,+'' ''out.csv''
       = \<lparr>printed = [], written = None, outcome = Raised IntCastingNaNError\<rparr>"
  by (simp add: validate_one_row nrows_one_row weighted_one_row ideal_one_row dist_one_row
      scores_one_row run_one_row)

theorem degenerate_row_raises_witness:
  "validate int_literal (fs_single ''in.csv'' tbl_one_row) ''in.csv'' ''1,1'' ''+,+''
     = Inr (tbl_one_row, [[Fin 1], [Fin 2]], [Fin 1, Fin 1], [''+'', ''+''])
   \<and> 0 < nrows tbl_one_row
   \<and> (0::real) + 0 = 0
   \<and> scores (nrows tbl_one_row) [[Fin 1], [Fin 2]] [Fin 1, Fin 1] [''+'', ''+''] ! 0 = NaN
   \<and> topsis int_literal (fs_single ''in.csv'' tbl_one_row) wr_all ''in.csv'' ''1,1'' ''+,+'' ''out.csv''
       = \<lparr>printed = [], written = None, outcome = Raised IntCastingNaNError\<rparr>"
  using degenerate_row_raises [of int_literal "fs_single ''in.csv'' tbl_one_row" "''in.csv''"
      "''1,1''" "''+,+''" tbl_one_row "[[Fin 1], [Fin 2]]" "[Fin 1, Fin 1]" "[''+'', ''+'']" 0 0 0
      wr_all "''out.csv''"]
  by (simp add: validate_one_row nrows_one_row weighted_one_row ideal_one_row dist_one_row)

section \<open>A criterion column of norm zero\<close>




section \<open>Ranks of equal scores\<close>

text \<open>
  Claim C1, as the code has it. In every written output the rows with equal scores have
  the same rank, and the rank of a row is the mean of the positions its group of equal
  scores occupies in descending order, truncated to an integer: the number of rows with
  a strictly greater score plus (the number of rows with that score + 1) div 2. So the
  scores 0.9, 0.9, 0.5 get the ranks 1, 1, 3, and three equal top scores get 2, 2, 2.
\<close>

theorem rank_is_truncated_average:
  assumes "written (topsis pf fs wr f w im out) = Some (p, tbl)"
  shows "\<exists>s r. get_col ''Topsis Score'' tbl = Some (map CFloat (map Fin s))
           \<and> get_col ''Rank'' tbl = Some (map CInt r)
           \<and> length r = length s
           \<and> (\<forall>i < length s.
                 r ! i = int (length (filter (\<lambda>u. s ! i < u) s))
                         + (int (length (filter (\<lambda>u. u = s ! i) s)) + 1) div 2)
           \<and> (\<forall>i < length s. \<forall>j < length s. s ! i = s ! j \<longrightarrow> r ! i = r ! j)"
proof -
  from topsis_written [OF assms] obtain df data ws il rk where
    r: "astype_int (rank_desc (scores (nrows df) data ws il)) = Some rk"
    and t: "tbl = set_col ''Rank'' (map CInt rk)
              (set_col ''Topsis Score'' (map CFloat (scores (nrows df) data ws il)) df)"
    by blast
  let ?sc = "scores (nrows df) data ws il"
  let ?s = "finite_vals ?sc"
  let ?rk = "\<lambda>v. int (length (filter (\<lambda>u. v < u) ?s))
                        + (int (length (filter (\<lambda>u. u = v) ?s)) + 1) div 2"
  from r have "NaN \<notin> set ?sc" using ranks_None [of ?sc] by simp
  then have sc: "map Fin ?s = ?sc" by (rule map_Fin_finite_vals)
  have "astype_int (rank_desc (map Fin ?s)) = Some (map ?rk ?s)" by (rule ranks_Fin)
  with r sc have rk: "rk = map ?rk ?s" by simp
  have g1: "get_col ''Topsis Score'' tbl = Some (map CFloat (map Fin ?s))"
    unfolding t sc by (simp add: get_col_set_col_other get_col_set_col)
  have g2: "get_col ''Rank'' tbl = Some (map CInt rk)"
    unfolding t by (rule get_col_set_col)
  have l: "length rk = length ?s" by (simp add: rk)
  have f: "\<forall>i < length ?s. rk ! i = ?rk (?s ! i)" by (simp add: rk)
  then have e: "\<forall>i < length ?s. \<forall>j < length ?s. ?s ! i = ?s ! j \<longrightarrow> rk ! i = rk ! j"
    by simp
  from g1 g2 l f e show ?thesis by blast
qed

text \<open>
  The claim as stated, 1 plus the number of rows with a strictly greater score, fails on
  three rows that share the top score: their rank is 2, not 1.
\<close>

theorem three_way_tie_counterexample:
  "written (topsis int_literal (fs_single ''in.csv'' tbl_ties) wr_all ''in.csv'' ''1,1'' ''+,-''
              ''out.csv'')
     = Some (''out.csv'',
          tbl_ties @
          [(''Topsis Score'', [CFloat (Fin 1), CFloat (Fin 1), CFloat (Fin 1), CFloat (Fin 0)]),
           (''Rank'', [CInt 2, CInt 2, CInt 2, CInt 4])])
   \<and> int (length (filter ((<) 1) [1, 1, 1, 0 :: real])) + 1 = 1"
  by (simp add: run_ties)


theorem rank_is_truncated_average_witness:
  "written (topsis int_literal (fs_single ''in.csv'' tbl_ties) wr_all ''in.csv'' ''1,1'' ''+,-''
              ''out.csv'')
     = Some (''out.csv'',
          tbl_ties @
          [(''Topsis Score'', [CFloat (Fin 1), CFloat (Fin 1), CFloat (Fin 1), CFloat (Fin 0)]),
           (''Rank'', [CInt 2, CInt 2, CInt 2, CInt 4])])
   \<and> (\<exists>s r. get_col ''Rank''
          (tbl_ties @
           [(''Topsis Score'', [CFloat (Fin 1), CFloat (Fin 1), CFloat (Fin 1), CFloat (Fin 0)]),
            (''Rank'', [CInt 2, CInt 2, CInt 2, CInt 4])]) = Some (map CInt r)
        \<and> get_col ''Topsis Score''
          (tbl_ties @
           [(''Topsis Score'', [CFloat (Fin 1), CFloat (Fin 1), CFloat (Fin 1), CFloat (Fin 0)]),
            (''Rank'', [CInt 2, CInt 2, CInt 2, CInt 4])]) = Some (map CFloat (map Fin s))
        \<and> length r = length s)"
proof -
  have w: "written (topsis int_literal (fs_single ''in.csv'' tbl_ties) wr_all ''in.csv'' ''1,1'' ''+,-''
              ''out.csv'')
     = Some (''out.csv'',
          tbl_ties @
          [(''Topsis Score'', [CFloat (Fin 1), CFloat (Fin 1), CFloat (Fin 1), CFloat (Fin 0)]),
           (''Rank'', [CInt 2, CInt 2, CInt 2, CInt 4])])"
    by (simp add: run_ties)
  from rank_is_truncated_average [OF w] w show ?thesis by blast
qed

section \<open>The score formula\<close>




end
